theory Spec2Isabelle
  imports Main
begin

section \<open>Snake game (ACGm.py): grid, entities and controller\<close>

text \<open>
  The model follows the Python source class by class. Python integers are unbounded, so
  coordinates and scores are \<open>int\<close>; Python's \<open>%\<close> with a positive divisor agrees
  with \<open>mod\<close> on \<open>int\<close> (the result is never negative). Objects are records, mutation
  is a record update returned by the method, and an exception is the \<open>Inl\<close> branch of
  a sum. Drawing, fonts and the clock do not touch the game data and are left out.
\<close>

subsection \<open>Constants\<close>

definition WINDOW_WIDTH :: int where "WINDOW_WIDTH = 800"
definition WINDOW_HEIGHT :: int where "WINDOW_HEIGHT = 600"
definition GRID_SIZE :: int where "GRID_SIZE = 20"
definition GRID_WIDTH :: int where "GRID_WIDTH = WINDOW_WIDTH div GRID_SIZE"
definition GRID_HEIGHT :: int where "GRID_HEIGHT = WINDOW_HEIGHT div GRID_SIZE"

subsection \<open>Errors and the random source\<close>

text \<open>The only exception the modelled code can raise: \<open>self.body[0]\<close> on an empty list.\<close>

datatype error = IndexError

text \<open>
  \<open>random.randint(a, b)\<close> returns some integer between \<open>a\<close> and \<open>b\<close>, both
  included. The generator is an explicit sequence of raw draws; a call reduces the next draw
  into the requested range and hands back the rest of the sequence.
\<close>

type_synonym rng = "nat \<Rightarrow> int"

definition randint :: "int \<Rightarrow> int \<Rightarrow> rng \<Rightarrow> int \<times> rng" where
  "randint a b r = (a + r 0 mod (b - a + 1), \<lambda>n. r (Suc n))"

subsection \<open>Direction and Position\<close>

datatype Direction = UP | DOWN | LEFT | RIGHT

text \<open>The enum member's \<open>.value\<close>: the unit delta.\<close>

fun Direction_value :: "Direction \<Rightarrow> int \<times> int" where
  "Direction_value UP = (0, -1)"
| "Direction_value DOWN = (0, 1)"
| "Direction_value LEFT = (-1, 0)"
| "Direction_value RIGHT = (1, 0)"

record Position =
  x :: int
  y :: int

text \<open>\<open>Position.__add__\<close>: a new position, the delta added to each coordinate.\<close>

definition Position_add :: "Position \<Rightarrow> Direction \<Rightarrow> Position" where
  "Position_add self direction =
     (case Direction_value direction of (dx, dy) \<Rightarrow> \<lparr>x = x self + dx, y = y self + dy\<rparr>)"

text \<open>\<open>Position.__eq__\<close>.\<close>

definition Position_eq :: "Position \<Rightarrow> Position \<Rightarrow> bool" where
  "Position_eq self other \<longleftrightarrow> x self = x other \<and> y self = y other"

subsection \<open>Food\<close>

record Food =
  position :: Position

definition Food_generate_position :: "rng \<Rightarrow> Position \<times> rng" where
  "Food_generate_position r =
     (case randint 0 (GRID_WIDTH - 1) r of (rx, r1) \<Rightarrow>
      case randint 0 (GRID_HEIGHT - 1) r1 of (ry, r2) \<Rightarrow>
        (\<lparr>x = rx, y = ry\<rparr>, r2))"

definition Food_init :: "rng \<Rightarrow> Food \<times> rng" where
  "Food_init r = (case Food_generate_position r of (p, r1) \<Rightarrow> (\<lparr>position = p\<rparr>, r1))"

definition Food_respawn :: "Food \<Rightarrow> rng \<Rightarrow> Food \<times> rng" where
  "Food_respawn self r =
     (case Food_generate_position r of (p, r1) \<Rightarrow> (self\<lparr>position := p\<rparr>, r1))"

subsection \<open>Snake\<close>

record Snake =
  body :: "Position list"
  direction :: Direction
  next_direction :: Direction
  grow_pending :: bool

definition Snake_init :: Snake where
  "Snake_init =
     (let start_pos = \<lparr>x = GRID_WIDTH div 2, y = GRID_HEIGHT div 2\<rparr>
      in \<lparr>body = [start_pos], direction = RIGHT, next_direction = RIGHT,
          grow_pending = False\<rparr>)"

text \<open>
  \<open>Snake.update\<close>. \<open>self.body[0]\<close> raises on an empty body. \<open>insert(0, new_head)\<close>
  is a cons, \<open>pop()\<close> drops the last element of the list that has just received the new head.
\<close>

definition Snake_update :: "Snake \<Rightarrow> error + Snake" where
  "Snake_update self =
     (let s1 = self\<lparr>direction := next_direction self\<rparr> in
      case body s1 of
        [] \<Rightarrow> Inl IndexError
      | h # _ \<Rightarrow>
          let new_head = Position_add h (direction s1);
              new_head = new_head\<lparr>x := x new_head mod GRID_WIDTH\<rparr>;
              new_head = new_head\<lparr>y := y new_head mod GRID_HEIGHT\<rparr>;
              s2 = s1\<lparr>body := new_head # body s1\<rparr>
          in if \<not> grow_pending s2
             then Inr (s2\<lparr>body := butlast (body s2)\<rparr>)
             else Inr (s2\<lparr>grow_pending := False\<rparr>))"

definition Snake_grow :: "Snake \<Rightarrow> Snake" where
  "Snake_grow self = self\<lparr>grow_pending := True\<rparr>"

text \<open>
  \<open>head in self.body[1:]\<close>: the list membership test compares with \<open>__eq__\<close>,
  element by element.
\<close>

definition Snake_check_collision :: "Snake \<Rightarrow> error + bool" where
  "Snake_check_collision self =
     (case body self of
        [] \<Rightarrow> Inl IndexError
      | head # rest \<Rightarrow> Inr (list_ex (\<lambda>e. Position_eq e head) rest))"

fun opposite :: "Direction \<Rightarrow> Direction" where
  "opposite UP = DOWN"
| "opposite DOWN = UP"
| "opposite LEFT = RIGHT"
| "opposite RIGHT = LEFT"

definition Snake_set_direction :: "Snake \<Rightarrow> Direction \<Rightarrow> Snake" where
  "Snake_set_direction self d =
     (if d \<noteq> opposite (direction self) then self\<lparr>next_direction := d\<rparr> else self)"

subsection \<open>Game controller\<close>

datatype GameState = MENU | PLAYING | GAME_OVER

record SnakeGame =
  state :: GameState
  snake :: Snake
  food :: Food
  score :: int
  high_score :: int
  running :: bool

text \<open>The game data set up by \<open>SnakeGame.__init__\<close>.\<close>

definition SnakeGame_init :: "rng \<Rightarrow> SnakeGame \<times> rng" where
  "SnakeGame_init r =
     (case Food_init r of (f, r1) \<Rightarrow>
        (\<lparr>state = MENU, snake = Snake_init, food = f, score = 0, high_score = 0,
          running = True\<rparr>, r1))"

definition start_game :: "SnakeGame \<Rightarrow> rng \<Rightarrow> SnakeGame \<times> rng" where
  "start_game self r =
     (case Food_init r of (f, r1) \<Rightarrow>
        (self\<lparr>snake := Snake_init, food := f, score := 0, state := PLAYING\<rparr>, r1))"

text \<open>The events \<open>handle_input\<close> tells apart; every other key or event type is \<open>K_other\<close>
  or \<open>OTHER\<close>.\<close>

datatype Key = K_SPACE | K_UP | K_DOWN | K_LEFT | K_RIGHT | K_q | K_other

datatype Event = QUIT | KEYDOWN Key | OTHER

text \<open>The body of the \<open>for event in pygame.event.get()\<close> loop.\<close>

definition handle_event :: "Event \<Rightarrow> SnakeGame \<Rightarrow> rng \<Rightarrow> SnakeGame \<times> rng" where
  "handle_event event self r =
     (case event of
        QUIT \<Rightarrow> (self\<lparr>running := False\<rparr>, r)
      | OTHER \<Rightarrow> (self, r)
      | KEYDOWN key \<Rightarrow>
          (case state self of
             MENU \<Rightarrow> (if key = K_SPACE then start_game self r else (self, r))
           | PLAYING \<Rightarrow>
               (if key = K_UP then (self\<lparr>snake := Snake_set_direction (snake self) UP\<rparr>, r)
                else if key = K_DOWN then (self\<lparr>snake := Snake_set_direction (snake self) DOWN\<rparr>, r)
                else if key = K_LEFT then (self\<lparr>snake := Snake_set_direction (snake self) LEFT\<rparr>, r)
                else if key = K_RIGHT then (self\<lparr>snake := Snake_set_direction (snake self) RIGHT\<rparr>, r)
                else (self, r))
           | GAME_OVER \<Rightarrow>
               (if key = K_SPACE then start_game self r
                else if key = K_q then (self\<lparr>running := False\<rparr>, r)
                else (self, r))))"

text \<open>\<open>handle_input\<close>, on the events that \<open>pygame.event.get()\<close> returned.\<close>

fun handle_input :: "Event list \<Rightarrow> SnakeGame \<Rightarrow> rng \<Rightarrow> SnakeGame \<times> rng" where
  "handle_input [] self r = (self, r)"
| "handle_input (event # events) self r =
     (case handle_event event self r of (g, r1) \<Rightarrow> handle_input events g r1)"

text \<open>
  \<open>SnakeGame.update\<close> once the state is known to be \<open>PLAYING\<close>, in its three steps:
  the move (line 193), the food check (lines 196 to 199) and the self-collision check
  (lines 202 to 205).
\<close>

definition move_step :: "SnakeGame \<Rightarrow> error + SnakeGame" where
  "move_step self =
     (case Snake_update (snake self) of
        Inl e \<Rightarrow> Inl e
      | Inr s \<Rightarrow> Inr (self\<lparr>snake := s\<rparr>))"

definition food_step :: "SnakeGame \<Rightarrow> rng \<Rightarrow> error + SnakeGame \<times> rng" where
  "food_step self r =
     (case body (snake self) of
        [] \<Rightarrow> Inl IndexError
      | h # _ \<Rightarrow>
          if Position_eq h (position (food self))
          then (case Food_respawn (food self) r of (f, r1) \<Rightarrow>
                  Inr (self\<lparr>snake := Snake_grow (snake self), food := f,
                            score := score self + 10\<rparr>, r1))
          else Inr (self, r))"

definition collision_step :: "SnakeGame \<Rightarrow> error + SnakeGame" where
  "collision_step self =
     (case Snake_check_collision (snake self) of
        Inl e \<Rightarrow> Inl e
      | Inr c \<Rightarrow>
          if c
          then (let g = self\<lparr>state := GAME_OVER\<rparr>
                in if score g > high_score g then Inr (g\<lparr>high_score := score g\<rparr>) else Inr g)
          else Inr self)"

definition SnakeGame_update :: "SnakeGame \<Rightarrow> rng \<Rightarrow> error + SnakeGame \<times> rng" where
  "SnakeGame_update self r =
     (if state self \<noteq> PLAYING then Inr (self, r)
      else case move_step self of
        Inl e \<Rightarrow> Inl e
      | Inr g1 \<Rightarrow>
          (case food_step g1 r of
             Inl e \<Rightarrow> Inl e
           | Inr (g2, r1) \<Rightarrow>
               (case collision_step g2 of
                  Inl e \<Rightarrow> Inl e
                | Inr g3 \<Rightarrow> Inr (g3, r1))))"

text \<open>
  The main loop of \<open>run\<close>, over the event batches of its successive iterations: it stops
  when \<open>running\<close> is false, and here also when the given batches are used up.
\<close>

fun run :: "Event list list \<Rightarrow> SnakeGame \<Rightarrow> rng \<Rightarrow> error + SnakeGame \<times> rng" where
  "run [] self r = Inr (self, r)"
| "run (events # rest) self r =
     (if \<not> running self then Inr (self, r)
      else case handle_input events self r of (g1, r1) \<Rightarrow>
        (case SnakeGame_update g1 r1 of
           Inl e \<Rightarrow> Inl e
         | Inr (g2, r2) \<Rightarrow> run rest g2 r2))"

subsection \<open>Operation sequences and the grid predicate\<close>

text \<open>A position lies on the grid: both coordinates within \<open>[0, width) \<times> [0, height)\<close>.\<close>

definition in_grid :: "Position \<Rightarrow> bool" where
  "in_grid p \<longleftrightarrow> 0 \<le> x p \<and> x p < GRID_WIDTH \<and> 0 \<le> y p \<and> y p < GRID_HEIGHT"

text \<open>The methods of \<open>Snake\<close> that change it, and a sequence of calls to them on one snake;
  an exception ends the sequence.\<close>

datatype Snake_op = Update | Grow | SetDirection Direction

fun Snake_run :: "Snake_op list \<Rightarrow> Snake \<Rightarrow> error + Snake" where
  "Snake_run [] s = Inr s"
| "Snake_run (Update # ops) s =
     (case Snake_update s of Inl e \<Rightarrow> Inl e | Inr s' \<Rightarrow> Snake_run ops s')"
| "Snake_run (Grow # ops) s = Snake_run ops (Snake_grow s)"
| "Snake_run (SetDirection d # ops) s = Snake_run ops (Snake_set_direction s d)"

subsection \<open>Concrete games\<close>

text \<open>A random source whose every raw draw is 7: each respawned food lands on \<open>(7, 7)\<close>.\<close>

definition const_rng :: rng where
  "const_rng n = 7"

text \<open>A snake of length 4 circling a 2 by 2 block, about to step right onto the cell its
  tail is leaving, with the food on that cell.\<close>

definition tail_chase_game :: SnakeGame where
  "tail_chase_game =
     \<lparr>state = PLAYING,
      snake = \<lparr>body = [\<lparr>x = 1, y = 1\<rparr>, \<lparr>x = 1, y = 2\<rparr>, \<lparr>x = 2, y = 2\<rparr>, \<lparr>x = 2, y = 1\<rparr>],
               direction = UP, next_direction = RIGHT, grow_pending = False\<rparr>,
      food = \<lparr>position = \<lparr>x = 2, y = 1\<rparr>\<rparr>,
      score = 0, high_score = 0, running = True\<rparr>"

text \<open>A snake of length 5 heading down and about to turn left into its own body, onto a cell
  that also holds the food.\<close>

definition corner_turn_game :: SnakeGame where
  "corner_turn_game =
     \<lparr>state = PLAYING,
      snake = \<lparr>body = [\<lparr>x = 2, y = 2\<rparr>, \<lparr>x = 2, y = 1\<rparr>, \<lparr>x = 1, y = 1\<rparr>, \<lparr>x = 1, y = 2\<rparr>,
                       \<lparr>x = 1, y = 3\<rparr>],
               direction = DOWN, next_direction = LEFT, grow_pending = False\<rparr>,
      food = \<lparr>position = \<lparr>x = 1, y = 2\<rparr>\<rparr>,
      score = 30, high_score = 20, running = True\<rparr>"

text \<open>A finished game.\<close>

definition game_over_game :: SnakeGame where
  "game_over_game =
     \<lparr>state = GAME_OVER,
      snake = \<lparr>body = [\<lparr>x = 1, y = 2\<rparr>, \<lparr>x = 2, y = 2\<rparr>, \<lparr>x = 2, y = 1\<rparr>, \<lparr>x = 1, y = 1\<rparr>,
                       \<lparr>x = 1, y = 2\<rparr>],
               direction = LEFT, next_direction = LEFT, grow_pending = False\<rparr>,
      food = \<lparr>position = \<lparr>x = 5, y = 5\<rparr>\<rparr>,
      score = 30, high_score = 30, running = True\<rparr>"

section \<open>Basic facts\<close>

lemma grid_values: "GRID_WIDTH = 40" "GRID_HEIGHT = 30"
  by (simp_all add: GRID_WIDTH_def GRID_HEIGHT_def WINDOW_WIDTH_def WINDOW_HEIGHT_def
      GRID_SIZE_def)

lemma Position_eq_iff: "Position_eq p q \<longleftrightarrow> p = q"
  by (cases p, cases q) (simp add: Position_eq_def)

lemma opposite_neq: "opposite d \<noteq> d"
  by (cases d) simp_all

text \<open>What \<open>Snake.update\<close> returns on a body with head \<open>h\<close>.\<close>

lemma Snake_update_Cons:
  "body s = h # t \<Longrightarrow>
   Snake_update s =
     Inr (s\<lparr>direction := next_direction s,
             body := \<lparr>x = (x h + fst (Direction_value (next_direction s))) mod GRID_WIDTH,
                      y = (y h + snd (Direction_value (next_direction s))) mod GRID_HEIGHT\<rparr> #
                    (if grow_pending s then h # t else butlast (h # t)),
             grow_pending := False\<rparr>)"
  by (cases "Direction_value (next_direction s)")
     (simp add: Snake_update_def Position_add_def Let_def)

lemma check_collision_Cons:
  "body s = h # t \<Longrightarrow> Snake_check_collision s = Inr (h \<in> set t)"
  by (auto simp add: Snake_check_collision_def list_ex_iff Position_eq_iff)

lemma in_grid_new_head:
  "in_grid \<lparr>x = a mod GRID_WIDTH, y = b mod GRID_HEIGHT\<rparr>"
  by (simp add: in_grid_def grid_values)

lemma list_all_butlast: "list_all P xs \<Longrightarrow> list_all P (butlast xs)"
  by (auto simp add: list_all_iff dest: in_set_butlastD)

section \<open>Position and Snake\<close>

text \<open>
  C2, as stated, at the rightmost column: \<open>Position(39, 0) + Direction.RIGHT\<close> is
  \<open>Position(40, 0)\<close>, off the grid; the wrapped position \<open>(0, 0)\<close> is not what the
  addition returns.
\<close>

theorem Position_add_wraps_counterexample:
  "Position_add \<lparr>x = 39, y = 0\<rparr> RIGHT = \<lparr>x = 40, y = 0\<rparr> \<and>
   Position_add \<lparr>x = 39, y = 0\<rparr> RIGHT \<noteq>
     \<lparr>x = (39 + 1) mod GRID_WIDTH, y = (0 + 0) mod GRID_HEIGHT\<rparr>"
  by (simp add: Position_add_def grid_values)

text \<open>
  C2 (amended): for every position \<open>p\<close> and direction \<open>d\<close>, \<open>p + d\<close> is the position
  with the unit delta of \<open>d\<close> added to each coordinate, with no wrapping. The wrapping is done
  by \<open>Snake.update\<close>: on a snake with head \<open>h\<close> it succeeds, and the new head is
  \<open>h + next_direction\<close> with x taken modulo the grid width and y modulo the grid height.
\<close>

theorem Position_add_plain_and_update_wraps:
  "Position_add p d =
     \<lparr>x = x p + fst (Direction_value d), y = y p + snd (Direction_value d)\<rparr> \<and>
   (body s = h # t \<longrightarrow>
     (\<exists>s'. Snake_update s = Inr s' \<and>
        hd (body s') =
          \<lparr>x = x (Position_add h (next_direction s)) mod GRID_WIDTH,
           y = y (Position_add h (next_direction s)) mod GRID_HEIGHT\<rparr>))"
  by (cases "Direction_value d"; cases "Direction_value (next_direction s)")
     (simp add: Snake_update_Cons Position_add_def)

text \<open>Witness for C2 (amended): a one-segment snake at \<open>(39, 0)\<close> heading right; the addition
  gives \<open>(40, 0)\<close>, the update puts the head at \<open>(0, 0)\<close>.\<close>

theorem Position_add_plain_and_update_wraps_witness:
  "body \<lparr>body = [\<lparr>x = 39, y = 0\<rparr>], direction = RIGHT, next_direction = RIGHT,
          grow_pending = False\<rparr> = [\<lparr>x = 39, y = 0\<rparr>] \<and>
   Position_add \<lparr>x = 39, y = 0\<rparr> RIGHT = \<lparr>x = 40, y = 0\<rparr> \<and>
   (\<exists>s'. Snake_update \<lparr>body = [\<lparr>x = 39, y = 0\<rparr>], direction = RIGHT,
                        next_direction = RIGHT, grow_pending = False\<rparr> = Inr s' \<and>
         hd (body s') = \<lparr>x = 0, y = 0\<rparr>)"
  using Position_add_plain_and_update_wraps [of "\<lparr>x = 39, y = 0\<rparr>" RIGHT
      "\<lparr>body = [\<lparr>x = 39, y = 0\<rparr>], direction = RIGHT, next_direction = RIGHT,
        grow_pending = False\<rparr>" "\<lparr>x = 39, y = 0\<rparr>" "[]"]
  by (simp add: Position_add_def grid_values)

text \<open>
  C3: on a snake with a non-empty body \<open>update()\<close> succeeds and clears the pending-growth
  flag; the body keeps its length when no growth was pending and is longer by exactly one
  when growth was pending. After \<open>grow()\<close> the next \<open>update()\<close> lengthens the body by one,
  and the \<open>update()\<close> after that leaves the length as it is: one \<open>grow()\<close> acts on one
  \<open>update()\<close> only.
\<close>

theorem Snake_update_length:
  assumes "body s \<noteq> []"
  shows "\<exists>s1 s2 s3.
           Snake_update s = Inr s1 \<and> \<not> grow_pending s1 \<and>
           length (body s1) = (if grow_pending s then length (body s) + 1 else length (body s)) \<and>
           Snake_update (Snake_grow s) = Inr s2 \<and> \<not> grow_pending s2 \<and>
           length (body s2) = length (body s) + 1 \<and>
           Snake_update s2 = Inr s3 \<and> length (body s3) = length (body s2)"
proof -
  from assms obtain h t where b: "body s = h # t" by (cases "body s") auto
  then show ?thesis
    by (simp add: Snake_update_Cons Snake_grow_def)
qed

text \<open>Witness for C3: the initial snake, of length 1, without and with a call of \<open>grow()\<close>.\<close>

theorem Snake_update_length_witness:
  "body Snake_init \<noteq> [] \<and>
   (\<exists>s1 s2 s3.
      Snake_update Snake_init = Inr s1 \<and> \<not> grow_pending s1 \<and> length (body s1) = 1 \<and>
      Snake_update (Snake_grow Snake_init) = Inr s2 \<and> \<not> grow_pending s2 \<and>
      length (body s2) = 2 \<and>
      Snake_update s2 = Inr s3 \<and> length (body s3) = 2)"
proof -
  have h: "body Snake_init \<noteq> []" by (simp add: Snake_init_def)
  have "length (body Snake_init) = 1" "\<not> grow_pending Snake_init"
    by (simp_all add: Snake_init_def)
  with Snake_update_length [OF h] h show ?thesis by fastforce
qed

text \<open>
  C4: \<open>set_direction(d)\<close> sets the intended next direction to \<open>d\<close> when \<open>d\<close> is not the
  opposite of the current heading, and otherwise returns the snake as it was, every field
  unchanged. When \<open>d\<close> is not the opposite of the current heading and the body is not empty,
  \<open>set_direction(d)\<close> followed by \<open>update()\<close> succeeds and the heading is \<open>d\<close>.
\<close>

theorem Snake_set_direction_guard:
  "Snake_set_direction s d =
     (if d \<noteq> opposite (direction s) then s\<lparr>next_direction := d\<rparr> else s) \<and>
   (d \<noteq> opposite (direction s) \<and> body s \<noteq> [] \<longrightarrow>
      (\<exists>s'. Snake_update (Snake_set_direction s d) = Inr s' \<and> direction s' = d))"
proof (cases "body s")
  case Nil
  then show ?thesis by (simp add: Snake_set_direction_def)
next
  case (Cons h t)
  then show ?thesis by (simp add: Snake_set_direction_def Snake_update_Cons)
qed

text \<open>Witness for C4: the initial snake heads right; \<open>UP\<close> is taken, \<open>LEFT\<close> is ignored.\<close>

theorem Snake_set_direction_guard_witness:
  "UP \<noteq> opposite (direction Snake_init) \<and> body Snake_init \<noteq> [] \<and>
   Snake_set_direction Snake_init UP = Snake_init\<lparr>next_direction := UP\<rparr> \<and>
   (\<exists>s'. Snake_update (Snake_set_direction Snake_init UP) = Inr s' \<and> direction s' = UP) \<and>
   LEFT = opposite (direction Snake_init) \<and>
   Snake_set_direction Snake_init LEFT = Snake_init"
proof -
  have h: "UP \<noteq> opposite (direction Snake_init)" "body Snake_init \<noteq> []"
    "LEFT = opposite (direction Snake_init)"
    by (simp_all add: Snake_init_def)
  with Snake_set_direction_guard [of Snake_init UP] Snake_set_direction_guard [of Snake_init LEFT]
  show ?thesis by fastforce
qed

text \<open>
  C5: on a snake with a non-empty body \<open>check_collision()\<close> returns true exactly when some
  body segment other than the head (an index from 1 on) is equal to the head, where equality
  is \<open>Position.__eq__\<close>, which holds exactly when both coordinates agree, that is, when the two
  positions are the same value.
\<close>

theorem Snake_check_collision_iff:
  assumes "body s \<noteq> []"
  shows "Snake_check_collision s =
           Inr (\<exists>i. 0 < i \<and> i < length (body s) \<and> Position_eq (body s ! 0) (body s ! i)) \<and>
         (Position_eq p q \<longleftrightarrow> p = q)"
proof -
  from assms obtain h t where b: "body s = h # t" by (cases "body s") auto
  have "h \<in> set t \<longleftrightarrow> (\<exists>i. 0 < i \<and> i < length (h # t) \<and> (h # t) ! i = h)"
  proof
    assume "h \<in> set t"
    then obtain j where "j < length t" "t ! j = h" by (auto simp add: in_set_conv_nth)
    then have "0 < Suc j \<and> Suc j < length (h # t) \<and> (h # t) ! Suc j = h" by simp
    then show "\<exists>i. 0 < i \<and> i < length (h # t) \<and> (h # t) ! i = h" by blast
  next
    assume "\<exists>i. 0 < i \<and> i < length (h # t) \<and> (h # t) ! i = h"
    then obtain i where i: "0 < i" "i < length (h # t)" "(h # t) ! i = h" by blast
    then obtain j where "i = Suc j" by (cases i) auto
    with i show "h \<in> set t" by auto
  qed
  with b show ?thesis
    by (simp add: check_collision_Cons Position_eq_iff eq_commute)
qed

text \<open>Witness for C5: the body \<open>[(1,1), (2,1), (1,1)]\<close> collides, \<open>[(1,1), (2,1), (3,1)]\<close>
  does not.\<close>

theorem Snake_check_collision_iff_witness:
  "body \<lparr>body = [\<lparr>x = 1, y = 1\<rparr>, \<lparr>x = 2, y = 1\<rparr>, \<lparr>x = 1, y = 1\<rparr>], direction = LEFT,
          next_direction = LEFT, grow_pending = False\<rparr> \<noteq> [] \<and>
   Snake_check_collision
     \<lparr>body = [\<lparr>x = 1, y = 1\<rparr>, \<lparr>x = 2, y = 1\<rparr>, \<lparr>x = 1, y = 1\<rparr>], direction = LEFT,
      next_direction = LEFT, grow_pending = False\<rparr> = Inr True \<and>
   Snake_check_collision
     \<lparr>body = [\<lparr>x = 1, y = 1\<rparr>, \<lparr>x = 2, y = 1\<rparr>, \<lparr>x = 3, y = 1\<rparr>], direction = LEFT,
      next_direction = LEFT, grow_pending = False\<rparr> = Inr False"
proof -
  let ?a = "\<lparr>body = [\<lparr>x = 1, y = 1\<rparr>, \<lparr>x = 2, y = 1\<rparr>, \<lparr>x = 1, y = 1\<rparr>], direction = LEFT,
          next_direction = LEFT, grow_pending = False\<rparr>"
  let ?b = "\<lparr>body = [\<lparr>x = 1, y = 1\<rparr>, \<lparr>x = 2, y = 1\<rparr>, \<lparr>x = 3, y = 1\<rparr>], direction = LEFT,
          next_direction = LEFT, grow_pending = False\<rparr>"
  have h: "body ?a \<noteq> []" "body ?b \<noteq> []" by simp_all
  have "\<exists>i. 0 < i \<and> i < length (body ?a) \<and> Position_eq (body ?a ! 0) (body ?a ! i)"
    by (rule exI [of _ 2]) (simp add: Position_eq_def)
  moreover have
    "\<not> (\<exists>i. 0 < i \<and> i < length (body ?b) \<and> Position_eq (body ?b ! 0) (body ?b ! i))"
    by (auto simp add: Position_eq_def less_Suc_eq numeral_3_eq_3)
  ultimately show ?thesis
    using Snake_check_collision_iff [OF h(1)] Snake_check_collision_iff [OF h(2)] by simp
qed

text \<open>\<open>update()\<close> on a non-empty body that lies on the grid.\<close>

lemma Snake_update_in_grid:
  assumes "body s \<noteq> []" "list_all in_grid (body s)"
  shows "\<exists>s'. Snake_update s = Inr s' \<and> direction s' = next_direction s \<and>
           hd (body s') =
             \<lparr>x = x (Position_add (hd (body s)) (direction s')) mod GRID_WIDTH,
              y = y (Position_add (hd (body s)) (direction s')) mod GRID_HEIGHT\<rparr> \<and>
           body s' \<noteq> [] \<and> list_all in_grid (body s')"
proof -
  from assms obtain h t where b: "body s = h # t" by (cases "body s") auto
  obtain dx dy where dv: "Direction_value (next_direction s) = (dx, dy)"
    by (cases "Direction_value (next_direction s)")
  from assms(2) b have "list_all in_grid (butlast (h # t))"
    by (metis list_all_butlast)
  with assms(2) b dv show ?thesis
    by (simp add: Snake_update_Cons Position_add_def in_grid_new_head)
qed

lemma Snake_run_in_grid:
  "body s \<noteq> [] \<Longrightarrow> list_all in_grid (body s) \<Longrightarrow>
   \<exists>s'. Snake_run ops s = Inr s' \<and> body s' \<noteq> [] \<and> list_all in_grid (body s')"
proof (induction ops s rule: Snake_run.induct)
  case (1 s)
  then show ?case by simp
next
  case (2 ops s)
  from Snake_update_in_grid [OF "2.prems"] obtain s1
    where "Snake_update s = Inr s1" "body s1 \<noteq> []" "list_all in_grid (body s1)" by blast
  with "2.IH" [of s1] show ?case by simp
next
  case (3 ops s)
  then show ?case by (simp add: Snake_grow_def)
next
  case (4 d ops s)
  then show ?case by (simp add: Snake_set_direction_def)
qed

lemma Snake_init_in_grid: "body Snake_init \<noteq> [] \<and> list_all in_grid (body Snake_init)"
  by (simp add: Snake_init_def in_grid_def grid_values)

text \<open>
  C6: on a snake whose body is non-empty and lies on the grid, \<open>update()\<close> succeeds, the
  heading becomes the intended direction, the new head is the old head plus that heading with
  x taken modulo the grid width and y modulo the grid height, and the whole body still lies
  on the grid. Every sequence of \<open>update()\<close>, \<open>grow()\<close> and \<open>set_direction(d)\<close> calls
  on the initial one-segment snake runs without an exception and ends in a snake whose body is
  non-empty and lies on the grid.
\<close>

theorem Snake_stays_in_grid:
  "(body s \<noteq> [] \<and> list_all in_grid (body s) \<longrightarrow>
      (\<exists>s'. Snake_update s = Inr s' \<and> direction s' = next_direction s \<and>
         hd (body s') =
           \<lparr>x = x (Position_add (hd (body s)) (direction s')) mod GRID_WIDTH,
            y = y (Position_add (hd (body s)) (direction s')) mod GRID_HEIGHT\<rparr> \<and>
         body s' \<noteq> [] \<and> list_all in_grid (body s'))) \<and>
   (\<exists>s'. Snake_run ops Snake_init = Inr s' \<and> body s' \<noteq> [] \<and> list_all in_grid (body s'))"
  using Snake_update_in_grid [of s] Snake_run_in_grid [of Snake_init ops] Snake_init_in_grid
  by blast

text \<open>Witness for C6: a two-segment snake in the top right corner turning up wraps to the
  bottom row; a run of four operations from the initial snake.\<close>

theorem Snake_stays_in_grid_witness:
  "body \<lparr>body = [\<lparr>x = 39, y = 0\<rparr>, \<lparr>x = 38, y = 0\<rparr>], direction = RIGHT,
          next_direction = UP, grow_pending = False\<rparr> \<noteq> [] \<and>
   list_all in_grid (body \<lparr>body = [\<lparr>x = 39, y = 0\<rparr>, \<lparr>x = 38, y = 0\<rparr>], direction = RIGHT,
          next_direction = UP, grow_pending = False\<rparr>) \<and>
   (\<exists>s'. Snake_update \<lparr>body = [\<lparr>x = 39, y = 0\<rparr>, \<lparr>x = 38, y = 0\<rparr>], direction = RIGHT,
          next_direction = UP, grow_pending = False\<rparr> = Inr s' \<and>
      direction s' = UP \<and> hd (body s') = \<lparr>x = 39, y = 29\<rparr> \<and> list_all in_grid (body s')) \<and>
   (\<exists>s'. Snake_run [Grow, Update, SetDirection UP, Update] Snake_init = Inr s' \<and>
      body s' \<noteq> [] \<and> list_all in_grid (body s'))"
proof -
  let ?a = "\<lparr>body = [\<lparr>x = 39, y = 0\<rparr>, \<lparr>x = 38, y = 0\<rparr>], direction = RIGHT,
          next_direction = UP, grow_pending = False\<rparr>"
  have h: "body ?a \<noteq> [] \<and> list_all in_grid (body ?a)"
    by (simp add: in_grid_def grid_values)
  with Snake_stays_in_grid [of ?a "[Grow, Update, SetDirection UP, Update]"] show ?thesis
    by (fastforce simp add: Position_add_def grid_values)
qed

text \<open>\<open>set_direction\<close> calls change neither the heading, the body nor the growth flag, and
  never make the intended direction the opposite of the heading.\<close>

lemma foldl_set_direction:
  "direction (foldl Snake_set_direction s ds) = direction s \<and>
   body (foldl Snake_set_direction s ds) = body s \<and>
   grow_pending (foldl Snake_set_direction s ds) = grow_pending s \<and>
   (next_direction s \<noteq> opposite (direction s) \<longrightarrow>
      next_direction (foldl Snake_set_direction s ds) \<noteq> opposite (direction s))"
proof (induction ds arbitrary: s)
  case Nil
  then show ?case by simp
next
  case (Cons d ds)
  have "direction (Snake_set_direction s d) = direction s"
       "body (Snake_set_direction s d) = body s"
       "grow_pending (Snake_set_direction s d) = grow_pending s"
       "next_direction s \<noteq> opposite (direction s) \<Longrightarrow>
          next_direction (Snake_set_direction s d) \<noteq> opposite (direction s)"
    by (simp_all add: Snake_set_direction_def)
  with Cons.IH [of "Snake_set_direction s d"] show ?case by simp
qed

text \<open>
  C10: let \<open>s1\<close> be the snake returned by an \<open>update()\<close>. After any sequence \<open>ds\<close> of
  \<open>set_direction\<close> calls on \<open>s1\<close>, the next \<open>update()\<close> succeeds, and the heading it
  commits (the intended direction left by the calls) is not the opposite of the heading of
  \<open>s1\<close>.
\<close>

theorem no_reversal_between_updates:
  assumes "Snake_update s0 = Inr s1"
  shows "\<exists>s2. Snake_update (foldl Snake_set_direction s1 ds) = Inr s2 \<and>
           direction s2 = next_direction (foldl Snake_set_direction s1 ds) \<and>
           direction s2 \<noteq> opposite (direction s1)"
proof -
  from assms obtain h t where b0: "body s0 = h # t"
    by (cases "body s0") (auto simp add: Snake_update_def Let_def)
  with assms have s1: "next_direction s1 = direction s1" "body s1 \<noteq> []"
    by (auto simp add: Snake_update_Cons)
  let ?s = "foldl Snake_set_direction s1 ds"
  from s1 have nd: "next_direction s1 \<noteq> opposite (direction s1)"
    by (metis opposite_neq)
  from foldl_set_direction [of s1 ds] nd s1
  have f: "body ?s \<noteq> []" "next_direction ?s \<noteq> opposite (direction s1)" by simp_all
  then obtain h' t' where "body ?s = h' # t'" by (cases "body ?s") auto
  with f show ?thesis by (simp add: Snake_update_Cons)
qed

text \<open>Witness for C10: the initial snake moves right; the requests \<open>UP\<close> then \<open>LEFT\<close> leave
  \<open>UP\<close> as the next heading.\<close>

theorem no_reversal_between_updates_witness:
  "Snake_update Snake_init =
     Inr \<lparr>body = [\<lparr>x = 21, y = 15\<rparr>], direction = RIGHT, next_direction = RIGHT,
          grow_pending = False\<rparr> \<and>
   (\<exists>s2. Snake_update
            (foldl Snake_set_direction
               \<lparr>body = [\<lparr>x = 21, y = 15\<rparr>], direction = RIGHT, next_direction = RIGHT,
                grow_pending = False\<rparr> [UP, LEFT]) = Inr s2 \<and>
          direction s2 = UP \<and> direction s2 \<noteq> LEFT)"
proof -
  have h: "Snake_update Snake_init =
     Inr \<lparr>body = [\<lparr>x = 21, y = 15\<rparr>], direction = RIGHT, next_direction = RIGHT,
          grow_pending = False\<rparr>"
    by (simp add: Snake_init_def grid_values Snake_update_def Position_add_def Let_def)
  from no_reversal_between_updates [OF h, of "[UP, LEFT]"] h show ?thesis
    by (simp add: Snake_set_direction_def)
qed

section \<open>Game controller\<close>

lemma Snake_update_Inr_body:
  assumes "Snake_update s = Inr s1"
  shows "body s \<noteq> [] \<and> body s1 \<noteq> []"
proof (cases "body s")
  case Nil
  with assms show ?thesis by (simp add: Snake_update_def Let_def)
next
  case (Cons h t)
  from Snake_update_Cons [OF Cons] assms Cons show ?thesis by auto
qed

lemma food_step_Cons:
  "body (snake g) = h # t \<Longrightarrow>
   food_step g r =
     Inr (if h = position (food g)
          then (g\<lparr>snake := Snake_grow (snake g), food := fst (Food_respawn (food g) r),
                  score := score g + 10\<rparr>, snd (Food_respawn (food g) r))
          else (g, r))"
  by (simp add: food_step_def Position_eq_iff split: prod.split)

lemma collision_step_Cons:
  "body (snake g) = h # t \<Longrightarrow>
   collision_step g =
     Inr (if h \<in> set t
          then g\<lparr>state := GAME_OVER, high_score := max (high_score g) (score g)\<rparr>
          else g)"
  by (simp add: collision_step_def check_collision_Cons Let_def max_def)

lemma food_step_body:
  "food_step g r = Inr (g2, r2) \<Longrightarrow>
   body (snake g2) = body (snake g) \<and> state g2 = state g \<and> high_score g2 = high_score g"
  by (cases "body (snake g)")
     (auto simp add: food_step_def Snake_grow_def split: if_splits prod.splits)

lemma SnakeGame_update_playing:
  assumes "state g = PLAYING" "Snake_update (snake g) = Inr s1"
  shows "\<exists>g2 r2 g3.
           food_step (g\<lparr>snake := s1\<rparr>) r = Inr (g2, r2) \<and>
           (g2, r2) =
             (if hd (body s1) = position (food g)
              then (g\<lparr>snake := Snake_grow s1, food := fst (Food_respawn (food g) r),
                      score := score g + 10\<rparr>, snd (Food_respawn (food g) r))
              else (g\<lparr>snake := s1\<rparr>, r)) \<and>
           body (snake g2) = body s1 \<and>
           Snake_check_collision (snake g2) = Inr (hd (body s1) \<in> set (tl (body s1))) \<and>
           collision_step g2 = Inr g3 \<and>
           g3 = (if hd (body s1) \<in> set (tl (body s1))
                 then g2\<lparr>state := GAME_OVER, high_score := max (high_score g) (score g2)\<rparr>
                 else g2) \<and>
           SnakeGame_update g r = Inr (g3, r2)"
proof -
  from Snake_update_Inr_body [OF assms(2)] obtain h t where b: "body s1 = h # t"
    by (cases "body s1") auto
  let ?g1 = "g\<lparr>snake := s1\<rparr>"
  have m: "move_step g = Inr ?g1" using assms(2) by (simp add: move_step_def)
  have b1: "body (snake ?g1) = h # t" using b by simp
  obtain g2 r2 where f: "food_step ?g1 r = Inr (g2, r2)"
    using food_step_Cons [OF b1, of r] by (cases "h = position (food g)") auto
  have f2: "(g2, r2) =
             (if hd (body s1) = position (food g)
              then (g\<lparr>snake := Snake_grow s1, food := fst (Food_respawn (food g) r),
                      score := score g + 10\<rparr>, snd (Food_respawn (food g) r))
              else (g\<lparr>snake := s1\<rparr>, r))"
    using f food_step_Cons [OF b1, of r] b by (simp split: if_splits)
  let ?c = "hd (body s1) \<in> set (tl (body s1))"
  let ?g3 = "if ?c then g2\<lparr>state := GAME_OVER, high_score := max (high_score g) (score g2)\<rparr>
             else g2"
  from food_step_body [OF f] b have b2: "body (snake g2) = h # t" "high_score g2 = high_score g"
    by simp_all
  have b2': "body (snake g2) = body s1" using b b2 by simp
  have cc: "Snake_check_collision (snake g2) = Inr ?c"
    using check_collision_Cons [OF b2(1)] b by simp
  have c: "collision_step g2 = Inr ?g3"
    using collision_step_Cons [OF b2(1)] b2(2) b by simp
  have u: "SnakeGame_update g r = Inr (?g3, r2)"
    using assms(1) m f c by (simp add: SnakeGame_update_def)
  show ?thesis
    using f f2 b2' cc c u by blast
qed

lemma Food_generate_position_const:
  "Food_generate_position const_rng = (\<lparr>x = 7, y = 7\<rparr>, \<lambda>n. const_rng (Suc (Suc n)))"
  by (simp add: Food_generate_position_def randint_def const_rng_def grid_values)

lemma tail_chase_update:
  "Snake_update (snake tail_chase_game) =
     Inr \<lparr>body = [\<lparr>x = 2, y = 1\<rparr>, \<lparr>x = 1, y = 1\<rparr>, \<lparr>x = 1, y = 2\<rparr>, \<lparr>x = 2, y = 2\<rparr>],
          direction = RIGHT, next_direction = RIGHT, grow_pending = False\<rparr>"
  by (simp add: tail_chase_game_def Snake_update_def Position_add_def Let_def grid_values)

lemma start_game_eq:
  "start_game g r =
     (g\<lparr>snake := Snake_init, food := fst (Food_init r), score := 0, state := PLAYING\<rparr>,
      snd (Food_init r))"
  by (simp add: start_game_def split: prod.split)

lemma handle_event_high_score:
  "high_score (fst (handle_event e g r)) = high_score g"
  by (cases e; cases "state g") (simp_all add: handle_event_def start_game_eq)

lemma handle_input_high_score:
  "high_score (fst (handle_input es g r)) = high_score g"
proof (induction es arbitrary: g r)
  case Nil
  then show ?case by simp
next
  case (Cons e es)
  obtain g1 r1 where e: "handle_event e g r = (g1, r1)" by (cases "handle_event e g r")
  with handle_event_high_score [of e g r] have "high_score g1 = high_score g" by simp
  with Cons.IH [of g1 r1] e show ?case by simp
qed

lemma SnakeGame_update_high_score:
  assumes "SnakeGame_update g r = Inr (g', r')"
  shows "high_score g \<le> high_score g'"
proof (cases "state g = PLAYING")
  case False
  with assms show ?thesis by (simp add: SnakeGame_update_def)
next
  case True
  with assms obtain s1 where s1: "Snake_update (snake g) = Inr s1"
    by (cases "Snake_update (snake g)") (simp_all add: SnakeGame_update_def move_step_def)
  from SnakeGame_update_playing [OF True s1, of r] assms obtain g2 r2 where
    k: "food_step (g\<lparr>snake := s1\<rparr>) r = Inr (g2, r2)"
       "g' = (if hd (body s1) \<in> set (tl (body s1))
                 then g2\<lparr>state := GAME_OVER, high_score := max (high_score g) (score g2)\<rparr>
                 else g2)"
    by auto
  from food_step_body [OF k(1)] have "high_score g2 = high_score g" by simp
  with k(2) show ?thesis by (simp split: if_splits)
qed

lemma run_high_score:
  "run batches g r = Inr (g', r') \<Longrightarrow> high_score g \<le> high_score g'"
proof (induction batches arbitrary: g r)
  case Nil
  then show ?case by simp
next
  case (Cons es batches)
  show ?case
  proof (cases "running g")
    case False
    with Cons.prems show ?thesis by simp
  next
    case True
    obtain g1 r1 where i: "handle_input es g r = (g1, r1)" by (cases "handle_input es g r")
    with handle_input_high_score [of es g r] have h1: "high_score g1 = high_score g" by simp
    from Cons.prems True i obtain g2 r2 where
      u: "SnakeGame_update g1 r1 = Inr (g2, r2)" and rest: "run batches g2 r2 = Inr (g', r')"
      by (cases "SnakeGame_update g1 r1") auto
    from SnakeGame_update_high_score [OF u] Cons.IH [OF rest] h1 show ?thesis by simp
  qed
qed

text \<open>
  C1, as stated, on the snake that steps onto the cell its tail is leaving while the food is
  on that cell: the food is eaten on this tick, yet the body that the collision check
  examines has the four segments it had before the tick, not five, and no collision is
  found; the game stays in \<open>PLAYING\<close> with the growth flag set.
\<close>

theorem tick_growth_in_collision_body_counterexample:
  "state tail_chase_game = PLAYING \<and>
   move_step tail_chase_game =
     Inr (tail_chase_game\<lparr>snake :=
       \<lparr>body = [\<lparr>x = 2, y = 1\<rparr>, \<lparr>x = 1, y = 1\<rparr>, \<lparr>x = 1, y = 2\<rparr>, \<lparr>x = 2, y = 2\<rparr>],
        direction = RIGHT, next_direction = RIGHT, grow_pending = False\<rparr>\<rparr>) \<and>
   \<lparr>x = 2, y = 1\<rparr> = position (food tail_chase_game) \<and>
   map_sum id fst (food_step (tail_chase_game\<lparr>snake :=
       \<lparr>body = [\<lparr>x = 2, y = 1\<rparr>, \<lparr>x = 1, y = 1\<rparr>, \<lparr>x = 1, y = 2\<rparr>, \<lparr>x = 2, y = 2\<rparr>],
        direction = RIGHT, next_direction = RIGHT, grow_pending = False\<rparr>\<rparr>) const_rng) =
     Inr \<lparr>state = PLAYING,
          snake = \<lparr>body = [\<lparr>x = 2, y = 1\<rparr>, \<lparr>x = 1, y = 1\<rparr>, \<lparr>x = 1, y = 2\<rparr>, \<lparr>x = 2, y = 2\<rparr>],
                   direction = RIGHT, next_direction = RIGHT, grow_pending = True\<rparr>,
          food = \<lparr>position = \<lparr>x = 7, y = 7\<rparr>\<rparr>,
          score = 10, high_score = 0, running = True\<rparr> \<and>
   length [\<lparr>x = 2, y = 1\<rparr>, \<lparr>x = 1, y = 1\<rparr>, \<lparr>x = 1, y = 2\<rparr>, \<lparr>x = 2, y = 2\<rparr>] \<noteq>
     length (body (snake tail_chase_game)) + 1 \<and>
   Snake_check_collision
     \<lparr>body = [\<lparr>x = 2, y = 1\<rparr>, \<lparr>x = 1, y = 1\<rparr>, \<lparr>x = 1, y = 2\<rparr>, \<lparr>x = 2, y = 2\<rparr>],
      direction = RIGHT, next_direction = RIGHT, grow_pending = True\<rparr> = Inr False \<and>
   map_sum id fst (SnakeGame_update tail_chase_game const_rng) =
     Inr \<lparr>state = PLAYING,
          snake = \<lparr>body = [\<lparr>x = 2, y = 1\<rparr>, \<lparr>x = 1, y = 1\<rparr>, \<lparr>x = 1, y = 2\<rparr>, \<lparr>x = 2, y = 2\<rparr>],
                   direction = RIGHT, next_direction = RIGHT, grow_pending = True\<rparr>,
          food = \<lparr>position = \<lparr>x = 7, y = 7\<rparr>\<rparr>,
          score = 10, high_score = 0, running = True\<rparr>"
  by (simp add: SnakeGame_update_def move_step_def tail_chase_update food_step_def
      collision_step_def Snake_check_collision_def Position_eq_def Food_respawn_def
      Food_generate_position_const Snake_grow_def)
     (simp add: tail_chase_game_def)

text \<open>
  C1 (amended): for every game in the \<open>PLAYING\<close> state whose snake body is not empty, one
  tick succeeds and runs in this order. It first advances the snake (the body is then longer
  by one exactly when growth was pending from before). Then, if the new head equals the food
  position, it calls \<open>grow()\<close>, respawns the food and adds exactly 10 to the score;
  \<open>grow()\<close> only sets the pending-growth flag and leaves the body as it is. Then it
  evaluates self-collision, on the body as the advance left it. The length increase from food
  eaten on this tick shows only in the next \<open>update()\<close> of the snake.
\<close>

theorem tick_checks_collision_on_moved_body:
  assumes "state g = PLAYING" "body (snake g) \<noteq> []"
  shows "\<exists>s1 g2 r2 g3.
           Snake_update (snake g) = Inr s1 \<and>
           length (body s1) =
             (if grow_pending (snake g) then length (body (snake g)) + 1
              else length (body (snake g))) \<and>
           move_step g = Inr (g\<lparr>snake := s1\<rparr>) \<and>
           food_step (g\<lparr>snake := s1\<rparr>) r = Inr (g2, r2) \<and>
           (g2, r2) =
             (if hd (body s1) = position (food g)
              then (g\<lparr>snake := Snake_grow s1, food := fst (Food_respawn (food g) r),
                      score := score g + 10\<rparr>, snd (Food_respawn (food g) r))
              else (g\<lparr>snake := s1\<rparr>, r)) \<and>
           body (snake g2) = body s1 \<and>
           grow_pending (snake g2) = (hd (body s1) = position (food g)) \<and>
           Snake_check_collision (snake g2) = Inr (hd (body s1) \<in> set (tl (body s1))) \<and>
           collision_step g2 = Inr g3 \<and>
           g3 = (if hd (body s1) \<in> set (tl (body s1))
                 then g2\<lparr>state := GAME_OVER, high_score := max (high_score g) (score g2)\<rparr>
                 else g2) \<and>
           SnakeGame_update g r = Inr (g3, r2) \<and>
           (\<exists>s3. Snake_update (snake g3) = Inr s3 \<and>
              length (body s3) =
                (if hd (body s1) = position (food g) then length (body s1) + 1
                 else length (body s1)))"
proof -
  from assms(2) obtain h t where b: "body (snake g) = h # t"
    by (cases "body (snake g)") auto
  from Snake_update_Cons [OF b] obtain s1 where s1: "Snake_update (snake g) = Inr s1"
    "length (body s1) =
       (if grow_pending (snake g) then length (body (snake g)) + 1
        else length (body (snake g)))"
    "\<not> grow_pending s1"
    using b by simp
  have m: "move_step g = Inr (g\<lparr>snake := s1\<rparr>)" using s1(1) by (simp add: move_step_def)
  from SnakeGame_update_playing [OF assms(1) s1(1), of r] obtain g2 r2 g3 where
    k: "food_step (g\<lparr>snake := s1\<rparr>) r = Inr (g2, r2)"
       "(g2, r2) =
             (if hd (body s1) = position (food g)
              then (g\<lparr>snake := Snake_grow s1, food := fst (Food_respawn (food g) r),
                      score := score g + 10\<rparr>, snd (Food_respawn (food g) r))
              else (g\<lparr>snake := s1\<rparr>, r))"
       "body (snake g2) = body s1"
       "Snake_check_collision (snake g2) = Inr (hd (body s1) \<in> set (tl (body s1)))"
       "collision_step g2 = Inr g3"
       "g3 = (if hd (body s1) \<in> set (tl (body s1))
                 then g2\<lparr>state := GAME_OVER, high_score := max (high_score g) (score g2)\<rparr>
                 else g2)"
       "SnakeGame_update g r = Inr (g3, r2)"
    by blast
  have gp: "grow_pending (snake g2) = (hd (body s1) = position (food g))"
    using k(2) s1(3) by (simp add: Snake_grow_def split: if_splits)
  have sn: "snake g3 = snake g2" using k(6) by simp
  from Snake_update_Inr_body [OF s1(1)] obtain h' t' where b1: "body s1 = h' # t'"
    by (cases "body s1") auto
  with k(3) have b3: "body (snake g2) = h' # t'" by simp
  have n: "\<exists>s3. Snake_update (snake g3) = Inr s3 \<and>
              length (body s3) =
                (if hd (body s1) = position (food g) then length (body s1) + 1
                 else length (body s1))"
    using Snake_update_Cons [OF b3] b3 gp k(3) sn by simp
  show ?thesis
    using s1(1,2) m k gp n by blast
qed

text \<open>Witness for C1 (amended): the tail-chasing game; the food is eaten, the body keeps its
  4 segments, no collision is found.\<close>

theorem tick_checks_collision_on_moved_body_witness:
  "state tail_chase_game = PLAYING \<and> body (snake tail_chase_game) \<noteq> [] \<and>
   (\<exists>s1 g2 r2.
      Snake_update (snake tail_chase_game) = Inr s1 \<and>
      length (body s1) = 4 \<and> hd (body s1) = position (food tail_chase_game) \<and>
      food_step (tail_chase_game\<lparr>snake := s1\<rparr>) const_rng = Inr (g2, r2) \<and>
      score g2 = 10 \<and> body (snake g2) = body s1 \<and> grow_pending (snake g2) \<and>
      Snake_check_collision (snake g2) = Inr False \<and>
      SnakeGame_update tail_chase_game const_rng = Inr (g2, r2) \<and> state g2 = PLAYING)"
proof -
  have h: "state tail_chase_game = PLAYING" "body (snake tail_chase_game) \<noteq> []"
    by (simp_all add: tail_chase_game_def)
  have e: "position (food tail_chase_game) = \<lparr>x = 2, y = 1\<rparr>" "score tail_chase_game = 0"
    "length (body (snake tail_chase_game)) = 4" "\<not> grow_pending (snake tail_chase_game)"
    by (simp_all add: tail_chase_game_def)
  from tick_checks_collision_on_moved_body [OF h, of const_rng] tail_chase_update h e show ?thesis
    by (clarsimp simp add: Position_eq_def)
qed

text \<open>
  collision_ends_game_high_score_monotone: for every game in the \<open>PLAYING\<close> state, when the snake as moved by the tick collides
  with itself, the tick succeeds, the state becomes \<open>GAME_OVER\<close> and the high score becomes
  the maximum of the old high score and the score (the score as it stands at that point, with
  the 10 points of food eaten on this tick). No operation of the controller lowers the high
  score: \<open>start_game\<close> and \<open>handle_input\<close> leave it as it is, \<open>update\<close> never decreases
  it, and neither does any number of iterations of the main loop.
\<close>

theorem collision_ends_game_high_score_monotone:
  "(state g = PLAYING \<and> Snake_update (snake g) = Inr sm \<and>
    Snake_check_collision sm = Inr True \<longrightarrow>
      (\<exists>g1 r1. SnakeGame_update g r = Inr (g1, r1) \<and> state g1 = GAME_OVER \<and>
         score g1 = (if hd (body sm) = position (food g) then score g + 10 else score g) \<and>
         high_score g1 = max (high_score g) (score g1))) \<and>
   high_score (fst (start_game g r)) = high_score g \<and>
   high_score (fst (handle_input events g r)) = high_score g \<and>
   (SnakeGame_update g r = Inr (gu, ru) \<longrightarrow> high_score g \<le> high_score gu) \<and>
   (run batches g r = Inr (gr, rr) \<longrightarrow> high_score g \<le> high_score gr)"
proof -
  have a: "\<exists>g1 r1. SnakeGame_update g r = Inr (g1, r1) \<and> state g1 = GAME_OVER \<and>
         score g1 = (if hd (body sm) = position (food g) then score g + 10 else score g) \<and>
         high_score g1 = max (high_score g) (score g1)"
    if p: "state g = PLAYING" and s1: "Snake_update (snake g) = Inr sm"
      and c: "Snake_check_collision sm = Inr True"
  proof -
    from Snake_update_Inr_body [OF s1] obtain h t where b: "body sm = h # t"
      by (cases "body sm") auto
    with c have col: "hd (body sm) \<in> set (tl (body sm))"
      by (simp add: check_collision_Cons)
    from SnakeGame_update_playing [OF p s1, of r] col obtain g2 r2 where
      k: "(g2, r2) =
             (if hd (body sm) = position (food g)
              then (g\<lparr>snake := Snake_grow sm, food := fst (Food_respawn (food g) r),
                      score := score g + 10\<rparr>, snd (Food_respawn (food g) r))
              else (g\<lparr>snake := sm\<rparr>, r))"
         "SnakeGame_update g r =
            Inr (g2\<lparr>state := GAME_OVER, high_score := max (high_score g) (score g2)\<rparr>, r2)"
      by auto
    from k(1) have "score g2 = (if hd (body sm) = position (food g) then score g + 10 else score g)"
      by (simp split: if_splits)
    with k(2) show ?thesis by simp
  qed
  show ?thesis
    using a handle_input_high_score [of events g r] SnakeGame_update_high_score [of g r gu ru]
      run_high_score [of batches g r gr rr]
    by (simp add: start_game_eq)
qed

text \<open>Witness for collision_ends_game_high_score_monotone: the corner-turning game collides and eats on the same tick; the score
  goes from 30 to 40 and the high score from 20 to 40.\<close>

theorem collision_ends_game_high_score_monotone_witness:
  "state corner_turn_game = PLAYING \<and>
   Snake_update (snake corner_turn_game) =
     Inr \<lparr>body = [\<lparr>x = 1, y = 2\<rparr>, \<lparr>x = 2, y = 2\<rparr>, \<lparr>x = 2, y = 1\<rparr>, \<lparr>x = 1, y = 1\<rparr>,
                  \<lparr>x = 1, y = 2\<rparr>],
          direction = LEFT, next_direction = LEFT, grow_pending = False\<rparr> \<and>
   Snake_check_collision
     \<lparr>body = [\<lparr>x = 1, y = 2\<rparr>, \<lparr>x = 2, y = 2\<rparr>, \<lparr>x = 2, y = 1\<rparr>, \<lparr>x = 1, y = 1\<rparr>,
              \<lparr>x = 1, y = 2\<rparr>],
      direction = LEFT, next_direction = LEFT, grow_pending = False\<rparr> = Inr True \<and>
   high_score corner_turn_game = 20 \<and>
   (\<exists>g1 r1. SnakeGame_update corner_turn_game const_rng = Inr (g1, r1) \<and>
      run [[KEYDOWN K_UP]] corner_turn_game const_rng = Inr (g1, r1) \<and>
      state g1 = GAME_OVER \<and> score g1 = 40 \<and> high_score g1 = 40 \<and>
      high_score corner_turn_game \<le> high_score g1)"
proof -
  let ?sm = "\<lparr>body = [\<lparr>x = 1, y = 2\<rparr>, \<lparr>x = 2, y = 2\<rparr>, \<lparr>x = 2, y = 1\<rparr>, \<lparr>x = 1, y = 1\<rparr>,
                  \<lparr>x = 1, y = 2\<rparr>],
          direction = LEFT, next_direction = LEFT, grow_pending = False\<rparr>"
  have p: "state corner_turn_game = PLAYING" "high_score corner_turn_game = 20"
    "score corner_turn_game = 30" "position (food corner_turn_game) = \<lparr>x = 1, y = 2\<rparr>"
    "running corner_turn_game"
    by (simp_all add: corner_turn_game_def)
  have u: "Snake_update (snake corner_turn_game) = Inr ?sm"
    by (simp add: corner_turn_game_def Snake_update_def Position_add_def Let_def grid_values)
  have c: "Snake_check_collision ?sm = Inr True"
    by (simp add: Snake_check_collision_def Position_eq_def)
  have i: "handle_input [KEYDOWN K_UP] corner_turn_game const_rng =
             (corner_turn_game, const_rng)"
    by (simp add: handle_event_def Snake_set_direction_def corner_turn_game_def)
  from collision_ends_game_high_score_monotone [of corner_turn_game ?sm const_rng, THEN conjunct1] p u c obtain g1 r1 where
    k: "SnakeGame_update corner_turn_game const_rng = Inr (g1, r1)" "state g1 = GAME_OVER"
       "score g1 = 40" "high_score g1 = 40"
    by auto
  from k(1) p(5) i have r: "run [[KEYDOWN K_UP]] corner_turn_game const_rng = Inr (g1, r1)"
    by simp
  from collision_ends_game_high_score_monotone [of corner_turn_game ?sm const_rng "[]" g1 r1 "[[KEYDOWN K_UP]]" g1 r1] k r
  have "high_score corner_turn_game \<le> high_score g1" by simp
  with p u c k r show ?thesis by simp
qed

text \<open>
  start_signal_resets_game: in the \<open>MENU\<close> and in the \<open>GAME_OVER\<close> state the start signal (the space key) calls
  \<open>start_game\<close>: the state becomes \<open>PLAYING\<close>, the snake is a new one of length 1 at the
  grid centre heading right with no growth pending, the food is a new one placed on the grid
  by the random source, the score is 0, and the high score and the running flag keep their
  values.
\<close>

theorem start_signal_resets_game:
  assumes "state g = MENU \<or> state g = GAME_OVER"
  shows "handle_input [KEYDOWN K_SPACE] g r = start_game g r \<and>
         fst (start_game g r) =
           g\<lparr>snake := Snake_init, food := fst (Food_init r), score := 0, state := PLAYING\<rparr> \<and>
         state (fst (start_game g r)) = PLAYING \<and>
         snake (fst (start_game g r)) =
           \<lparr>body = [\<lparr>x = GRID_WIDTH div 2, y = GRID_HEIGHT div 2\<rparr>], direction = RIGHT,
            next_direction = RIGHT, grow_pending = False\<rparr> \<and>
         length (body (snake (fst (start_game g r)))) = 1 \<and>
         food (fst (start_game g r)) = fst (Food_init r) \<and>
         in_grid (position (food (fst (start_game g r)))) \<and>
         score (fst (start_game g r)) = 0 \<and>
         high_score (fst (start_game g r)) = high_score g \<and>
         running (fst (start_game g r)) = running g"
proof -
  have f: "in_grid (position (fst (Food_init r)))"
    by (simp add: Food_init_def Food_generate_position_def randint_def in_grid_def grid_values
        split: prod.split)
  from assms have "handle_input [KEYDOWN K_SPACE] g r = start_game g r"
    by (auto simp add: handle_event_def split: prod.split)
  with f show ?thesis
    by (simp add: start_game_eq Snake_init_def)
qed

text \<open>Witness for start_signal_resets_game: the game as constructed (in \<open>MENU\<close>) and a finished game.\<close>

theorem start_signal_resets_game_witness:
  "state (fst (SnakeGame_init const_rng)) = MENU \<and>
   state game_over_game = GAME_OVER \<and>
   handle_input [KEYDOWN K_SPACE] (fst (SnakeGame_init const_rng)) const_rng =
     start_game (fst (SnakeGame_init const_rng)) const_rng \<and>
   handle_input [KEYDOWN K_SPACE] game_over_game const_rng =
     start_game game_over_game const_rng \<and>
   fst (start_game game_over_game const_rng) =
     \<lparr>state = PLAYING,
      snake = \<lparr>body = [\<lparr>x = 20, y = 15\<rparr>], direction = RIGHT, next_direction = RIGHT,
               grow_pending = False\<rparr>,
      food = \<lparr>position = \<lparr>x = 7, y = 7\<rparr>\<rparr>,
      score = 0, high_score = 30, running = True\<rparr>"
proof -
  have h: "state (fst (SnakeGame_init const_rng)) = MENU" "state game_over_game = GAME_OVER"
    by (simp_all add: SnakeGame_init_def game_over_game_def split: prod.split)
  have e: "fst (Food_init const_rng) = \<lparr>position = \<lparr>x = 7, y = 7\<rparr>\<rparr>"
    by (simp add: Food_init_def Food_generate_position_const)
  have "fst (start_game game_over_game const_rng) =
     \<lparr>state = PLAYING,
      snake = \<lparr>body = [\<lparr>x = 20, y = 15\<rparr>], direction = RIGHT, next_direction = RIGHT,
               grow_pending = False\<rparr>,
      food = \<lparr>position = \<lparr>x = 7, y = 7\<rparr>\<rparr>,
      score = 0, high_score = 30, running = True\<rparr>"
    using start_signal_resets_game [of game_over_game const_rng] h(2) e
    by (simp add: game_over_game_def Snake_init_def grid_values)
  with start_signal_resets_game [of "fst (SnakeGame_init const_rng)" const_rng] start_signal_resets_game [of game_over_game const_rng] h
  show ?thesis by simp
qed

text \<open>
  update_outside_playing_unchanged: in every state other than \<open>PLAYING\<close> a tick of the controller update returns at once:
  the game (snake, food, score, high score, state, running flag) and the random source are
  exactly what they were.
\<close>

theorem update_outside_playing_unchanged:
  assumes "state g \<noteq> PLAYING"
  shows "SnakeGame_update g r = Inr (g, r)"
  using assms by (simp add: SnakeGame_update_def)

text \<open>Witness for update_outside_playing_unchanged: the game as constructed (in \<open>MENU\<close>) and a finished game.\<close>

theorem update_outside_playing_unchanged_witness:
  "state (fst (SnakeGame_init const_rng)) \<noteq> PLAYING \<and>
   state game_over_game \<noteq> PLAYING \<and>
   SnakeGame_update (fst (SnakeGame_init const_rng)) const_rng =
     Inr (fst (SnakeGame_init const_rng), const_rng) \<and>
   SnakeGame_update game_over_game const_rng = Inr (game_over_game, const_rng)"
proof -
  have h: "state (fst (SnakeGame_init const_rng)) \<noteq> PLAYING" "state game_over_game \<noteq> PLAYING"
    by (simp_all add: SnakeGame_init_def game_over_game_def split: prod.split)
  from update_outside_playing_unchanged [OF h(1), of const_rng] update_outside_playing_unchanged [OF h(2), of const_rng] h show ?thesis by simp
qed

end
